theory Spec2Isabelle
  imports Main
begin

section \<open>Values of the Go runtime that the program handles\<close>

subsection \<open>float64\<close>

text \<open>
  A finite \<open>float64\<close> is a sign, a significand below \<open>2 ^ 53\<close> and a binary exponent
  between \<open>-1074\<close> and \<open>971\<close>: \<open>Float64 s m e\<close> is \<open>(-1) ^ s * m * 2 ^ e\<close>. The
  zero value of the type is \<open>+0\<close>. Infinities and NaN are left out: no JSON number
  decodes to one (a literal that is too large is a decoding error).
\<close>

datatype float64 = Float64 (negative: bool) (significand: nat) (exponent: int)

definition zeroFloat :: float64 where
  "zeroFloat = Float64 False 0 (- 1074)"

text \<open>Rounding the fraction \<open>p / q\<close> to the nearest integer, ties to even.\<close>

definition roundHalfEven :: "nat \<Rightarrow> nat \<Rightarrow> nat" where
  "roundHalfEven p q =
     (let n = p div q; r = p mod q
      in if 2 * r < q then n
         else if q < 2 * r then n + 1
         else if even n then n else n + 1)"

fun bitLen :: "nat \<Rightarrow> nat" where
  "bitLen n = (if n = 0 then 0 else Suc (bitLen (n div 2)))"

declare bitLen.simps [simp del]

text \<open>
  \<open>strconv.ParseFloat(s, 64)\<close> on a number literal denoting \<open>m * 10 ^ e10\<close> with the
  given sign: the nearest \<open>float64\<close>, ties to even; \<open>None\<close> is the range error for a
  literal that rounds beyond the largest finite value.
\<close>

definition parseFloat :: "bool \<Rightarrow> nat \<Rightarrow> int \<Rightarrow> float64 option" where
  "parseFloat s m e10 =
     (if m = 0 then Some (Float64 s 0 (- 1074))
      else
        let p = (if 0 \<le> e10 then m * 10 ^ nat e10 else m);
            q = (if 0 \<le> e10 then 1 else 10 ^ nat (- e10));
            d = int (bitLen p) - int (bitLen q);
            k = (if q * 2 ^ nat d \<le> p * 2 ^ nat (- d) then d else d - 1);
            e = max (k - 52) (- 1074);
            n = roundHalfEven (p * 2 ^ nat (- e)) (q * 2 ^ nat e);
            n' = (if n = 2 ^ 53 then 2 ^ 52 else n);
            e' = (if n = 2 ^ 53 then e + 1 else e)
        in if 971 < e' then None else Some (Float64 s n' e'))"

subsection \<open>Decimal output: the verbs \<open>%.1f\<close> and \<open>%.6f\<close>\<close>

definition digitChar :: "nat \<Rightarrow> char" where
  "digitChar d = ''0123456789'' ! d"

fun natDigits :: "nat \<Rightarrow> string" where
  "natDigits n = (if n < 10 then [digitChar n] else natDigits (n div 10) @ [digitChar (n mod 10)])"

declare natDigits.simps [simp del]

text \<open>The \<open>w\<close> low decimal digits of \<open>n\<close>, zero-padded on the left.\<close>

fun padDigits :: "nat \<Rightarrow> nat \<Rightarrow> string" where
  "padDigits 0 n = []"
| "padDigits (Suc w) n = padDigits w (n div 10) @ [digitChar (n mod 10)]"

text \<open>
  \<open>fmt.Sprintf("%.<prec>f", x)\<close>: the exact value of \<open>x\<close> rounded to \<open>prec\<close> decimals,
  ties to even, with the sign of \<open>x\<close> (a negative zero prints its sign).
\<close>

definition fmtFixed :: "nat \<Rightarrow> float64 \<Rightarrow> string" where
  "fmtFixed prec x =
     (let m = significand x; e = exponent x;
          u = roundHalfEven (m * 10 ^ prec * 2 ^ nat e) (2 ^ nat (- e))
      in (if negative x then ''-'' else [])
         @ natDigits (u div 10 ^ prec)
         @ (if prec = 0 then [] else ''.'' @ padDigits prec (u mod 10 ^ prec)))"

subsection \<open>Times: \<open>time.Unix(t, 0).Format("Mon 15:04")\<close>\<close>

text \<open>
  \<open>time.Unix\<close> yields the instant in \<open>time.Local\<close>, the zone of the machine the server
  runs on. The zone is a parameter of the model: a function from the instant (seconds
  since the epoch) to the offset east of UTC, in seconds, in force at that instant.
\<close>

type_synonym location = "int \<Rightarrow> int"

definition utc :: location where
  "utc = (\<lambda>t. 0)"

text \<open>
  The library counts seconds from its absolute zero, a Monday some 292 billion years
  before the epoch, in an unsigned 64-bit integer: the sum of the Unix time, the zone
  offset and the distance between the two origins, with the wrap-around of the machine
  addition.
\<close>

definition unixToInternal :: int where
  "unixToInternal = (1969 * 365 + 1969 div 4 - 1969 div 100 + 1969 div 400) * 86400"

definition internalToAbsolute :: int where
  "internalToAbsolute = 9223371966579724800"

definition absSeconds :: "location \<Rightarrow> int \<Rightarrow> int" where
  "absSeconds loc t = (t + loc t + (unixToInternal + internalToAbsolute)) mod 2 ^ 64"

definition weekdayNames :: "string list" where
  "weekdayNames = [''Sun'', ''Mon'', ''Tue'', ''Wed'', ''Thu'', ''Fri'', ''Sat'']"

text \<open>\<open>absWeekday\<close>: Sunday is 0, and the absolute zero is a Monday.\<close>

definition absWeekday :: "int \<Rightarrow> nat" where
  "absWeekday a = nat (((a + 1 * 86400) mod 2 ^ 64) mod 604800 div 86400)"

text \<open>\<open>absClock\<close>: hour, minute and second within the day.\<close>

definition absClock :: "int \<Rightarrow> nat \<times> nat \<times> nat" where
  "absClock a =
     (let sec = a mod 86400;
          hour = sec div 3600;
          sec' = sec - hour * 3600;
          minute = sec' div 60
      in (nat hour, nat minute, nat (sec' - minute * 60)))"

text \<open>The layout \<open>"Mon 15:04"\<close>: weekday abbreviation, a space, the hour from 00 to 23,
  a colon, the minute.\<close>

definition formatMon1504 :: "location \<Rightarrow> int \<Rightarrow> string" where
  "formatMon1504 loc t =
     (let a = absSeconds loc t
      in case absClock a of
           (hour, minute, sec) \<Rightarrow>
             weekdayNames ! absWeekday a @ '' '' @ padDigits 2 hour @ '':'' @ padDigits 2 minute)"

section \<open>JSON, as \<open>encoding/json\<close> decodes it into the program's structs\<close>

subsection \<open>Documents\<close>

text \<open>
  A number literal is kept in the two shapes the decoder tells apart: digits only
  (\<open>IntLit neg n\<close>), or with a fraction or an exponent part (\<open>DecLit neg m e\<close>, denoting
  \<open>m * 10 ^ e\<close>). An object is the list of its members in document order, repeated names
  included; names and strings are byte strings, escapes resolved.
\<close>

datatype number = IntLit bool nat | DecLit bool nat int

datatype json =
    JNull
  | JBool bool
  | JNumber number
  | JString string
  | JArray "json list"
  | JObject "(string \<times> json) list"

text \<open>
  The text handed to the decoder is represented by what the library's scanner makes of
  it: a syntax error, or the document it holds.
\<close>

datatype jsonText = Malformed | Parsed json

text \<open>\<open>UnmarshalTypeError\<close> carries the path of the field that could not take the value.\<close>

datatype jsonError = SyntaxError | UnmarshalTypeError string

subsection \<open>The structs of the program\<close>

record LatLong =
  Latitude :: float64
  Longitude :: float64

record GeoResponse =
  Results :: "LatLong list"

record Forecast =
  Date :: string
  Temperature :: string

record WeatherDisplay =
  City :: string
  Forecasts :: "Forecast list"

text \<open>The anonymous struct of the field \<open>Hourly\<close>.\<close>

record Hourly =
  Time :: "int list"
  Temperature2m :: "float64 list"

text \<open>
  \<open>WeatherResponse\<close> has fields \<open>Latitude\<close> and \<open>Longitude\<close> of its own; they are
  prefixed here to keep them apart from those of \<open>LatLong\<close>.
\<close>

record WeatherResponse =
  WeatherLatitude :: float64
  WeatherLongitude :: float64
  Timezone :: string
  Hourly :: Hourly

definition zeroLatLong :: LatLong where
  "zeroLatLong = \<lparr>Latitude = zeroFloat, Longitude = zeroFloat\<rparr>"

definition zeroGeoResponse :: GeoResponse where
  "zeroGeoResponse = \<lparr>Results = []\<rparr>"

definition zeroWeatherResponse :: WeatherResponse where
  "zeroWeatherResponse =
     \<lparr>WeatherLatitude = zeroFloat, WeatherLongitude = zeroFloat, Timezone = [],
      Hourly = \<lparr>Time = [], Temperature2m = []\<rparr>\<rparr>"

subsection \<open>Matching a member name to a struct field\<close>

text \<open>
  A member goes to the field whose \<open>json\<close> tag equals its name, or else whose tag equals
  it under case folding. Folding maps an ASCII letter to upper case; the only other
  characters that fold to an ASCII letter are U+017F (to \<open>S\<close>) and U+212A (to \<open>K\<close>).
\<close>

definition foldByte :: "char \<Rightarrow> char" where
  "foldByte c =
     (let n = (of_char c :: nat) in if 97 \<le> n \<and> n \<le> 122 then char_of (n - 32) else c)"

fun foldName :: "string \<Rightarrow> string" where
  "foldName (a # b # c # cs) =
     (if [a, b, c] = [CHR 0xE2, CHR 0x84, CHR 0xAA] then CHR ''K'' # foldName cs
      else if [a, b] = [CHR 0xC5, CHR 0xBF] then CHR ''S'' # foldName (c # cs)
      else foldByte a # foldName (b # c # cs))"
| "foldName [a, b] =
     (if [a, b] = [CHR 0xC5, CHR 0xBF] then ''S'' else [foldByte a, foldByte b])"
| "foldName [a] = [foldByte a]"
| "foldName [] = []"

definition fieldIs :: "string \<Rightarrow> string \<Rightarrow> bool" where
  "fieldIs tag name = (name = tag \<or> foldName name = foldName tag)"

subsection \<open>Decoding values\<close>

text \<open>
  A decoder for a number, a string or a struct takes the value the destination holds and
  returns the value it holds afterwards: \<open>null\<close> leaves such a destination as it is. A
  value of the wrong JSON type is an \<open>UnmarshalTypeError\<close>. Unmarshal reports the first
  such error; the program then drops the struct, so decoding stops there in the model.
\<close>

definition numberToFloat :: "number \<Rightarrow> float64 option" where
  "numberToFloat n =
     (case n of IntLit s m \<Rightarrow> parseFloat s m 0 | DecLit s m e \<Rightarrow> parseFloat s m e)"

text \<open>\<open>strconv.ParseInt(s, 10, 64)\<close>: digits only, and within the range of \<open>int64\<close>.\<close>

definition numberToInt64 :: "number \<Rightarrow> int option" where
  "numberToInt64 n =
     (case n of
        IntLit s m \<Rightarrow>
          (let i = (if s then - int m else int m)
           in if - (2 ^ 63) \<le> i \<and> i < 2 ^ 63 then Some i else None)
      | DecLit s m e \<Rightarrow> None)"

definition decodeFloat64 :: "string \<Rightarrow> json \<Rightarrow> float64 \<Rightarrow> jsonError + float64" where
  "decodeFloat64 path v cur =
     (case v of
        JNull \<Rightarrow> Inr cur
      | JNumber n \<Rightarrow>
          (case numberToFloat n of
             None \<Rightarrow> Inl (UnmarshalTypeError path)
           | Some x \<Rightarrow> Inr x)
      | _ \<Rightarrow> Inl (UnmarshalTypeError path))"

definition decodeInt64 :: "string \<Rightarrow> json \<Rightarrow> int \<Rightarrow> jsonError + int" where
  "decodeInt64 path v cur =
     (case v of
        JNull \<Rightarrow> Inr cur
      | JNumber n \<Rightarrow>
          (case numberToInt64 n of
             None \<Rightarrow> Inl (UnmarshalTypeError path)
           | Some i \<Rightarrow> Inr i)
      | _ \<Rightarrow> Inl (UnmarshalTypeError path))"

definition decodeString :: "string \<Rightarrow> json \<Rightarrow> string \<Rightarrow> jsonError + string" where
  "decodeString path v cur =
     (case v of
        JNull \<Rightarrow> Inr cur
      | JString s \<Rightarrow> Inr s
      | _ \<Rightarrow> Inl (UnmarshalTypeError path))"

text \<open>
  A slice is the elements the program sees and, out of its sight, what the backing array
  still holds beyond them. An array is decoded element by element into what the backing
  array holds at that index, or into a zero value beyond it; then the slice is cut to
  the number of elements read. An empty array gives a fresh empty slice. Unlike the
  other kinds, a slice takes \<open>null\<close>: it becomes nil.
\<close>

fun decodeElems ::
  "('a \<Rightarrow> json \<Rightarrow> jsonError + 'a) \<Rightarrow> 'a \<Rightarrow> 'a list \<Rightarrow> json list \<Rightarrow> jsonError + 'a list" where
  "decodeElems f zero backing [] = Inr []"
| "decodeElems f zero [] (v # vs) =
     (case f zero v of
        Inl e \<Rightarrow> Inl e
      | Inr x \<Rightarrow>
          (case decodeElems f zero [] vs of Inl e \<Rightarrow> Inl e | Inr xs \<Rightarrow> Inr (x # xs)))"
| "decodeElems f zero (b # backing) (v # vs) =
     (case f b v of
        Inl e \<Rightarrow> Inl e
      | Inr x \<Rightarrow>
          (case decodeElems f zero backing vs of Inl e \<Rightarrow> Inl e | Inr xs \<Rightarrow> Inr (x # xs)))"

definition decodeSlice ::
  "('a \<Rightarrow> json \<Rightarrow> jsonError + 'a) \<Rightarrow> 'a \<Rightarrow> string \<Rightarrow> json \<Rightarrow> 'a list \<times> 'a list
     \<Rightarrow> jsonError + 'a list \<times> 'a list" where
  "decodeSlice f zero path v cur =
     (case v of
        JNull \<Rightarrow> Inr ([], [])
      | JArray vs \<Rightarrow>
          (if vs = [] then Inr ([], [])
           else case decodeElems f zero (fst cur @ snd cur) vs of
                  Inl e \<Rightarrow> Inl e
                | Inr xs \<Rightarrow> Inr (xs, drop (length vs) (fst cur @ snd cur)))
      | _ \<Rightarrow> Inl (UnmarshalTypeError path))"

text \<open>An object updates a struct member by member, in document order.\<close>

fun decodeMembers ::
  "('s \<Rightarrow> string \<Rightarrow> json \<Rightarrow> jsonError + 's) \<Rightarrow> 's \<Rightarrow> (string \<times> json) list \<Rightarrow> jsonError + 's" where
  "decodeMembers f s [] = Inr s"
| "decodeMembers f s ((name, v) # ms) =
     (case f s name v of
        Inl e \<Rightarrow> Inl e
      | Inr s' \<Rightarrow> decodeMembers f s' ms)"

definition decodeStruct ::
  "('s \<Rightarrow> string \<Rightarrow> json \<Rightarrow> jsonError + 's) \<Rightarrow> string \<Rightarrow> json \<Rightarrow> 's \<Rightarrow> jsonError + 's" where
  "decodeStruct f path v cur =
     (case v of
        JNull \<Rightarrow> Inr cur
      | JObject ms \<Rightarrow> decodeMembers f cur ms
      | _ \<Rightarrow> Inl (UnmarshalTypeError path))"

subsection \<open>Decoding into \<open>GeoResponse\<close> and \<open>WeatherResponse\<close>\<close>

definition latLongMember :: "LatLong \<Rightarrow> string \<Rightarrow> json \<Rightarrow> jsonError + LatLong" where
  "latLongMember c name v =
     (if fieldIs ''latitude'' name then
        (case decodeFloat64 ''results.latitude'' v (Latitude c) of
           Inl e \<Rightarrow> Inl e
         | Inr x \<Rightarrow> Inr (c\<lparr>Latitude := x\<rparr>))
      else if fieldIs ''longitude'' name then
        (case decodeFloat64 ''results.longitude'' v (Longitude c) of
           Inl e \<Rightarrow> Inl e
         | Inr x \<Rightarrow> Inr (c\<lparr>Longitude := x\<rparr>))
      else Inr c)"

text \<open>
  While a struct with slices is decoded, the rest of each backing array goes along with
  it: for \<open>GeoResponse\<close> that of \<open>Results\<close>, for the hourly struct those of \<open>Time\<close>
  and \<open>Temperature2m\<close>.
\<close>

definition geoResponseMember ::
  "GeoResponse \<times> LatLong list \<Rightarrow> string \<Rightarrow> json \<Rightarrow> jsonError + GeoResponse \<times> LatLong list" where
  "geoResponseMember st name v =
     (case st of (g, rest) \<Rightarrow>
        if fieldIs ''results'' name then
          (case decodeSlice (\<lambda>cur el. decodeStruct latLongMember ''results'' el cur) zeroLatLong
                  ''results'' v (Results g, rest) of
             Inl e \<Rightarrow> Inl e
           | Inr (cs, rest') \<Rightarrow> Inr (g\<lparr>Results := cs\<rparr>, rest'))
        else Inr (g, rest))"

definition hourlyMember ::
  "Hourly \<times> int list \<times> float64 list \<Rightarrow> string \<Rightarrow> json
     \<Rightarrow> jsonError + Hourly \<times> int list \<times> float64 list" where
  "hourlyMember st name v =
     (case st of (h, restTime, restTemp) \<Rightarrow>
        if fieldIs ''time'' name then
          (case decodeSlice (\<lambda>cur el. decodeInt64 ''hourly.time'' el cur) 0
                  ''hourly.time'' v (Time h, restTime) of
             Inl e \<Rightarrow> Inl e
           | Inr (ts, restTime') \<Rightarrow> Inr (h\<lparr>Time := ts\<rparr>, restTime', restTemp))
        else if fieldIs ''temperature_2m'' name then
          (case decodeSlice (\<lambda>cur el. decodeFloat64 ''hourly.temperature_2m'' el cur) zeroFloat
                  ''hourly.temperature_2m'' v (Temperature2m h, restTemp) of
             Inl e \<Rightarrow> Inl e
           | Inr (xs, restTemp') \<Rightarrow> Inr (h\<lparr>Temperature2m := xs\<rparr>, restTime, restTemp'))
        else Inr (h, restTime, restTemp))"

definition weatherResponseMember ::
  "WeatherResponse \<times> int list \<times> float64 list \<Rightarrow> string \<Rightarrow> json
     \<Rightarrow> jsonError + WeatherResponse \<times> int list \<times> float64 list" where
  "weatherResponseMember st name v =
     (case st of (r, rest) \<Rightarrow>
        if fieldIs ''latitude'' name then
          (case decodeFloat64 ''latitude'' v (WeatherLatitude r) of
             Inl e \<Rightarrow> Inl e
           | Inr x \<Rightarrow> Inr (r\<lparr>WeatherLatitude := x\<rparr>, rest))
        else if fieldIs ''longitude'' name then
          (case decodeFloat64 ''longitude'' v (WeatherLongitude r) of
             Inl e \<Rightarrow> Inl e
           | Inr x \<Rightarrow> Inr (r\<lparr>WeatherLongitude := x\<rparr>, rest))
        else if fieldIs ''timezone'' name then
          (case decodeString ''timezone'' v (Timezone r) of
             Inl e \<Rightarrow> Inl e
           | Inr z \<Rightarrow> Inr (r\<lparr>Timezone := z\<rparr>, rest))
        else if fieldIs ''hourly'' name then
          (case decodeStruct hourlyMember ''hourly'' v (Hourly r, rest) of
             Inl e \<Rightarrow> Inl e
           | Inr (h, rest') \<Rightarrow> Inr (r\<lparr>Hourly := h\<rparr>, rest'))
        else Inr (r, rest))"

text \<open>
  \<open>json.NewDecoder(resp.Body).Decode(&response)\<close> and
  \<open>json.Unmarshal([]byte(rawWeather), &weatherResponse)\<close>, each into a fresh variable.
\<close>

definition decodeGeoResponse :: "jsonText \<Rightarrow> jsonError + GeoResponse" where
  "decodeGeoResponse txt =
     (case txt of
        Malformed \<Rightarrow> Inl SyntaxError
      | Parsed v \<Rightarrow>
          (case decodeStruct geoResponseMember [] v (zeroGeoResponse, []) of
             Inl e \<Rightarrow> Inl e
           | Inr (response, rest) \<Rightarrow> Inr response))"

definition unmarshalWeatherResponse :: "jsonText \<Rightarrow> jsonError + WeatherResponse" where
  "unmarshalWeatherResponse txt =
     (case txt of
        Malformed \<Rightarrow> Inl SyntaxError
      | Parsed v \<Rightarrow>
          (case decodeStruct weatherResponseMember [] v (zeroWeatherResponse, [], []) of
             Inl e \<Rightarrow> Inl e
           | Inr (weatherResponse, rest) \<Rightarrow> Inr weatherResponse))"

section \<open>Errors, panics and the world outside the process\<close>

text \<open>
  An \<open>error\<close> value is what built it: \<open>errors.New\<close>, \<open>fmt.Errorf\<close> wrapping a cause
  with \<open>%w\<close> (the text of the format before the verb is kept), an error of the HTTP
  transport or of reading a body (with its text), or an error of the JSON decoder.
\<close>

datatype goError =
    ErrorsNew string
  | Errorf string goError
  | TransportError string
  | JSONError jsonError

text \<open>A function either returns or panics with a run-time error.\<close>

datatype runtimeError = IndexOutOfRange nat nat | NilPointerDereference

datatype 'a outcome = Return 'a | Panic runtimeError

text \<open>The body of an HTTP response received: reading it fails, or it holds a text.\<close>

datatype responseBody = Unreadable string | Content jsonText

text \<open>
  What a request meets outside the program: the zone of the machine, the answer of
  \<open>http.Get\<close> for each URL (\<open>Inl\<close> the transport's error text), the files
  \<open>ioutil.ReadFile\<close> can read, the templates \<open>template.ParseFiles\<close> can parse (each as
  the bytes its \<open>Execute\<close> writes for a value), and the wording of the JSON decoder's
  errors.
\<close>

record world =
  timeLocal :: location
  httpGet :: "string \<Rightarrow> string + responseBody"
  readFile :: "string \<Rightarrow> string option"
  parseFiles :: "string \<Rightarrow> (WeatherDisplay \<Rightarrow> string) option"
  jsonErrorText :: "jsonError \<Rightarrow> string"

text \<open>The method \<open>Error()\<close>.\<close>

fun errorString :: "world \<Rightarrow> goError \<Rightarrow> string" where
  "errorString w (ErrorsNew s) = s"
| "errorString w (Errorf fmt cause) = fmt @ errorString w cause"
| "errorString w (TransportError s) = s"
| "errorString w (JSONError e) = jsonErrorText w e"

section \<open>The two API clients\<close>

subsection \<open>Endpoints\<close>

definition hexDigits :: string where
  "hexDigits = ''0123456789ABCDEF''"

definition unreserved :: "char \<Rightarrow> bool" where
  "unreserved c =
     (let n = (of_char c :: nat)
      in (48 \<le> n \<and> n \<le> 57) \<or> (65 \<le> n \<and> n \<le> 90) \<or> (97 \<le> n \<and> n \<le> 122)
         \<or> c \<in> set ''-_.~'')"

definition escapeByte :: "char \<Rightarrow> string" where
  "escapeByte c =
     (if unreserved c then [c]
      else if c = CHR '' '' then ''+''
      else [CHR ''%'', hexDigits ! ((of_char c :: nat) div 16), hexDigits ! ((of_char c :: nat) mod 16)])"

definition queryEscape :: "string \<Rightarrow> string" where
  "queryEscape s = concat (map escapeByte s)"

definition geoEndpoint :: "string \<Rightarrow> string" where
  "geoEndpoint city =
     ''https://geocoding-api.open-meteo.com/v1/search?name='' @ queryEscape city
     @ ''&count=1&language=ru&format=json''"

definition weatherEndpoint :: "LatLong \<Rightarrow> string" where
  "weatherEndpoint latLong =
     ''https://api.open-meteo.com/v1/forecast?latitude='' @ fmtFixed 6 (Latitude latLong)
     @ ''&longitude='' @ fmtFixed 6 (Longitude latLong)
     @ ''&hourly=temperature_2m&timeformat=unixtime''"

subsection \<open>getLatLong and getWeather\<close>

text \<open>The streaming decoder returns a failure of reading the body as it is.\<close>

definition decodeBody :: "responseBody \<Rightarrow> goError + GeoResponse" where
  "decodeBody b =
     (case b of
        Unreadable e \<Rightarrow> Inl (TransportError e)
      | Content txt \<Rightarrow>
          (case decodeGeoResponse txt of
             Inl e \<Rightarrow> Inl (JSONError e)
           | Inr response \<Rightarrow> Inr response))"

definition getLatLong :: "world \<Rightarrow> string \<Rightarrow> goError + LatLong" where
  "getLatLong w city =
     (case httpGet w (geoEndpoint city) of
        Inl err \<Rightarrow> Inl (Errorf ''error making request to Geo API: '' (TransportError err))
      | Inr resp \<Rightarrow>
          (case decodeBody resp of
             Inl err \<Rightarrow> Inl (Errorf ''error decoding response: '' err)
           | Inr response \<Rightarrow>
               if length (Results response) < 1 then Inl (ErrorsNew ''no results found'')
               else Inr (Results response ! 0)))"

definition getWeather :: "world \<Rightarrow> LatLong \<Rightarrow> goError + jsonText" where
  "getWeather w latLong =
     (case httpGet w (weatherEndpoint latLong) of
        Inl err \<Rightarrow> Inl (Errorf ''error making request to Weather API: '' (TransportError err))
      | Inr resp \<Rightarrow>
          (case resp of
             Unreadable err \<Rightarrow> Inl (Errorf ''error reading response body '' (TransportError err))
           | Content txt \<Rightarrow> Inr txt))"

section \<open>The forecast formatter\<close>

text \<open>The five bytes that follow \<open>%.1f\<close> in the format string of the source.\<close>

definition temperatureSuffix :: string where
  "temperatureSuffix = [CHR 0xC3, CHR 0x82, CHR 0xC2, CHR 0xB0, CHR ''C'']"

definition forecastAt :: "location \<Rightarrow> int \<Rightarrow> float64 \<Rightarrow> Forecast" where
  "forecastAt loc t temp =
     \<lparr>Date = formatMon1504 loc t, Temperature = fmtFixed 1 temp @ temperatureSuffix\<rparr>"

text \<open>
  The loop \<open>for i, t := range weatherResponse.Hourly.Time\<close>: \<open>i\<close> is the index reached,
  the list is what is left of \<open>Time\<close>, \<open>forecasts\<close> the slice built so far. Indexing
  \<open>Temperature2m\<close> at or beyond its length panics.
\<close>

fun rangeTime ::
  "location \<Rightarrow> float64 list \<Rightarrow> nat \<Rightarrow> int list \<Rightarrow> Forecast list \<Rightarrow> Forecast list outcome" where
  "rangeTime loc temps i [] forecasts = Return forecasts"
| "rangeTime loc temps i (t # ts) forecasts =
     (if i < length temps
      then rangeTime loc temps (Suc i) ts (forecasts @ [forecastAt loc t (temps ! i)])
      else Panic (IndexOutOfRange i (length temps)))"

definition extractWeatherData ::
  "location \<Rightarrow> string \<Rightarrow> jsonText \<Rightarrow> (goError + WeatherDisplay) outcome" where
  "extractWeatherData loc city rawWeather =
     (case unmarshalWeatherResponse rawWeather of
        Inl err \<Rightarrow> Return (Inl (Errorf ''error decoding weather response: '' (JSONError err)))
      | Inr weatherResponse \<Rightarrow>
          (case rangeTime loc (Temperature2m (Hourly weatherResponse)) 0
                  (Time (Hourly weatherResponse)) [] of
             Panic p \<Rightarrow> Panic p
           | Return forecasts \<Rightarrow> Return (Inr \<lparr>City = city, Forecasts = forecasts\<rparr>)))"

section \<open>The HTTP front end\<close>

text \<open>
  A request is its URL path and what \<open>ParseForm\<close> makes of it: \<open>None\<close> for an error,
  or the values of each key. A response is the status, the content type the handler sets
  (if it sets one) and the bytes written.
\<close>

record request =
  urlPath :: string
  form :: "(string \<times> string list) list option"

record response =
  statusCode :: nat
  contentType :: "string option"
  written :: string

definition formValue :: "(string \<times> string list) list \<Rightarrow> string \<Rightarrow> string" where
  "formValue f key = (case map_of f key of Some (v # vs) \<Rightarrow> v | _ \<Rightarrow> [])"

text \<open>\<open>http.Error\<close> and \<open>http.NotFound\<close>.\<close>

definition httpError :: "string \<Rightarrow> nat \<Rightarrow> response" where
  "httpError msg code =
     \<lparr>statusCode = code, contentType = Some ''text/plain; charset=utf-8'',
      written = msg @ [CHR 0x0A]\<rparr>"

definition notFound :: response where
  "notFound = httpError ''404 page not found'' 404"

definition home :: "world \<Rightarrow> request \<Rightarrow> response outcome" where
  "home w r =
     (case readFile w ''views/index.html'' of
        None \<Rightarrow> Return (httpError ''failed to open file'' 500)
      | Some file \<Rightarrow>
          Return \<lparr>statusCode = 200, contentType = Some ''text/html'', written = file\<rparr>)"

text \<open>
  A nil template is all \<open>template.ParseFiles\<close> returns when it fails; its error is
  dropped, and \<open>Execute\<close> on the nil pointer panics.
\<close>

definition handler :: "world \<Rightarrow> request \<Rightarrow> response outcome" where
  "handler w r =
     (if urlPath r \<noteq> ''/weather'' then Return notFound
      else case form r of
        None \<Rightarrow> Return (httpError ''could not parse the form'' 500)
      | Some f \<Rightarrow>
          (let city = formValue f ''city''
           in case getLatLong w city of
                Inl err \<Rightarrow> Return (httpError ''internal server error'' 500)
              | Inr latLong \<Rightarrow>
                  (case getWeather w latLong of
                     Inl err \<Rightarrow> Return (httpError (errorString w err) 500)
                   | Inr weather \<Rightarrow>
                       (case extractWeatherData (timeLocal w) city weather of
                          Panic p \<Rightarrow> Panic p
                        | Return (Inl err) \<Rightarrow> Return (httpError (errorString w err) 500)
                        | Return (Inr data) \<Rightarrow>
                            (case parseFiles w ''views/weather.html'' of
                               None \<Rightarrow> Panic NilPointerDereference
                             | Some tmpl \<Rightarrow>
                                 Return \<lparr>statusCode = 200, contentType = None,
                                         written = tmpl data\<rparr>)))))"

subsection \<open>The routes of \<open>main\<close>\<close>

text \<open>
  \<open>http.HandleFunc\<close> registers a pattern on the default mux. A pattern that ends in a
  slash names a subtree and matches every path below it; any other pattern matches that
  path only. The longest pattern that matches takes the request; when none does the mux
  answers not found. (Request paths are taken in canonical form, without \<open>.\<close>, \<open>..\<close> or
  doubled slashes: the mux redirects the others before any handler runs.)
\<close>

datatype handlerFunc = HomeFunc | HandlerFunc

definition routes :: "(string \<times> handlerFunc) list" where
  "routes = [(''/'', HomeFunc), (''/weather'', HandlerFunc)]"

definition patternMatches :: "string \<Rightarrow> string \<Rightarrow> bool" where
  "patternMatches pattern path =
     (if pattern \<noteq> [] \<and> last pattern = CHR ''/'' then take (length pattern) path = pattern
      else path = pattern)"

fun muxMatch ::
  "(string \<times> handlerFunc) list \<Rightarrow> string \<Rightarrow> (string \<times> handlerFunc) option" where
  "muxMatch [] path = None"
| "muxMatch ((pattern, h) # rest) path =
     (case muxMatch rest path of
        None \<Rightarrow> (if patternMatches pattern path then Some (pattern, h) else None)
      | Some (pattern', h') \<Rightarrow>
          (if patternMatches pattern path \<and> length pattern' < length pattern
           then Some (pattern, h) else Some (pattern', h')))"

definition serveHTTP :: "world \<Rightarrow> request \<Rightarrow> response outcome" where
  "serveHTTP w r =
     (case muxMatch routes (urlPath r) of
        None \<Rightarrow> Return notFound
      | Some (pattern, HomeFunc) \<Rightarrow> home w r
      | Some (pattern, HandlerFunc) \<Rightarrow> handler w r)"

section \<open>Example requests and answers\<close>

text \<open>
  The geocoder's answer for Paris, \<open>{"results":[{"latitude":48.8566,"longitude":2.3522}]}\<close>,
  with the coordinate it decodes to.
\<close>

definition parisGeo :: json where
  "parisGeo =
     JObject [(''results'', JArray [JObject
       [(''latitude'', JNumber (DecLit False 488566 (- 4))),
        (''longitude'', JNumber (DecLit False 23522 (- 4)))]])]"

definition parisLatLong :: LatLong where
  "parisLatLong =
     \<lparr>Latitude = Float64 False 6875955173580918 (- 47),
      Longitude = Float64 False 5296683521750440 (- 51)\<rparr>"



definition noMatchGeo :: json where
  "noMatchGeo = JObject [(''results'', JArray [])]"

text \<open>
  Forecasts: \<open>{"hourly":{"time":[1700000000],"temperature_2m":[12.3]}}\<close>; one with two
  hours; one with two timestamps and a single temperature; one with empty series; one
  whose \<open>hourly\<close> object has temperatures and no \<open>time\<close> member; and the document the
  weather service sends for a request it rejects, which has no \<open>hourly\<close> member.
\<close>

definition parisForecast :: json where
  "parisForecast =
     JObject [(''hourly'', JObject
       [(''time'', JArray [JNumber (IntLit False 1700000000)]),
        (''temperature_2m'', JArray [JNumber (DecLit False 123 (- 1))])])]"

definition twoHourForecast :: json where
  "twoHourForecast =
     JObject [(''hourly'', JObject
       [(''time'', JArray [JNumber (IntLit False 1700000000), JNumber (IntLit False 1700003600)]),
        (''temperature_2m'', JArray [JNumber (DecLit False 123 (- 1)), JNumber (DecLit False 118 (- 1))])])]"

definition shortForecast :: json where
  "shortForecast =
     JObject [(''hourly'', JObject
       [(''time'', JArray [JNumber (IntLit False 1700000000), JNumber (IntLit False 1700003600)]),
        (''temperature_2m'', JArray [JNumber (DecLit False 123 (- 1))])])]"

definition emptyForecast :: json where
  "emptyForecast =
     JObject [(''hourly'', JObject [(''time'', JArray []), (''temperature_2m'', JArray [])])]"

definition timelessForecast :: "(string \<times> json) list" where
  "timelessForecast =
     [(''hourly'', JObject [(''temperature_2m'', JArray [JNumber (DecLit False 123 (- 1))])])]"

definition rejectedForecast :: json where
  "rejectedForecast =
     JObject [(''error'', JBool True), (''reason'', JString ''Latitude must be in range'')]"

text \<open>
  A world in UTC where the geocoder and the weather service answer as given, the landing
  page can be read, and the results template is as given.
\<close>

definition exampleWorld ::
  "string + responseBody \<Rightarrow> string + responseBody \<Rightarrow> (WeatherDisplay \<Rightarrow> string) option \<Rightarrow> world" where
  "exampleWorld geo weather tmpl =
     \<lparr>timeLocal = utc,
      httpGet = (\<lambda>url. if url = geoEndpoint ''Paris'' then geo else weather),
      readFile = (\<lambda>name. if name = ''views/index.html'' then Some ''<h1>Weather</h1>'' else None),
      parseFiles = (\<lambda>name. tmpl),
      jsonErrorText = (\<lambda>e. ''json: cannot decode'')\<rparr>"

definition parisRequest :: request where
  "parisRequest = \<lparr>urlPath = ''/weather'', form = Some [(''city'', [''Paris''])]\<rparr>"

definition bogusRequest :: request where
  "bogusRequest = \<lparr>urlPath = ''/bogus'', form = Some []\<rparr>"

text \<open>
  A document brings no timestamps when each of its members that goes to the field
  \<open>Hourly\<close> is \<open>null\<close> or an object with no member for the field \<open>Time\<close>.
\<close>

definition withoutTime :: "json \<Rightarrow> bool" where
  "withoutTime v =
     (case v of
        JObject hs \<Rightarrow> list_all (\<lambda>(name, x). \<not> fieldIs ''time'' name) hs
      | JNull \<Rightarrow> True
      | _ \<Rightarrow> False)"

definition withoutTimestamps :: "(string \<times> json) list \<Rightarrow> bool" where
  "withoutTimestamps ms = list_all (\<lambda>(name, v). fieldIs ''hourly'' name \<longrightarrow> withoutTime v) ms"

section \<open>Evaluation lemmas\<close>

lemma bitLen_0: "bitLen 0 = 0"
  by (simp add: bitLen.simps)

lemma bitLen_pos: "n \<noteq> 0 \<Longrightarrow> bitLen n = Suc (bitLen (n div 2))"
  by (subst bitLen.simps) simp

lemma padDigits_1: "padDigits 1 n = [digitChar (n mod 10)]"
  by simp

lemma padDigits_2: "padDigits 2 n = [digitChar (n div 10 mod 10), digitChar (n mod 10)]"
  by (simp add: numeral_2_eq_2)

lemma natDigits_small: "n < 10 \<Longrightarrow> natDigits n = [digitChar n]"
  by (simp add: natDigits.simps)

lemma natDigits_large: "\<not> n < 10 \<Longrightarrow> natDigits n = natDigits (n div 10) @ [digitChar (n mod 10)]"
  by (subst natDigits.simps) simp

lemmas float_eval =
  parseFloat_def roundHalfEven_def Let_def bitLen_0 bitLen_pos numberToFloat_def

lemmas fixed_eval =
  fmtFixed_def roundHalfEven_def Let_def natDigits_small natDigits_large digitChar_def
  padDigits_1

lemmas time_eval =
  formatMon1504_def utc_def absSeconds_def unixToInternal_def internalToAbsolute_def
  absWeekday_def absClock_def weekdayNames_def Let_def digitChar_def padDigits_2

lemma fieldIs_weather:
  "fieldIs ''hourly'' ''hourly''"
  "\<not> fieldIs ''latitude'' ''hourly''"
  "\<not> fieldIs ''longitude'' ''hourly''"
  "\<not> fieldIs ''timezone'' ''hourly''"
  "fieldIs ''time'' ''time''"
  "fieldIs ''temperature_2m'' ''temperature_2m''"
  "\<not> fieldIs ''time'' ''temperature_2m''"
  by code_simp+

lemma fieldIs_rejected:
  "\<not> fieldIs ''latitude'' ''error''"
  "\<not> fieldIs ''longitude'' ''error''"
  "\<not> fieldIs ''timezone'' ''error''"
  "\<not> fieldIs ''hourly'' ''error''"
  "\<not> fieldIs ''latitude'' ''reason''"
  "\<not> fieldIs ''longitude'' ''reason''"
  "\<not> fieldIs ''timezone'' ''reason''"
  "\<not> fieldIs ''hourly'' ''reason''"
  by code_simp+

lemma fieldIs_geo:
  "fieldIs ''results'' ''results''"
  "fieldIs ''latitude'' ''latitude''"
  "fieldIs ''longitude'' ''longitude''"
  "\<not> fieldIs ''latitude'' ''longitude''"
  by code_simp+

lemmas decode_eval =
  decodeStruct_def decodeSlice_def decodeInt64_def decodeFloat64_def decodeString_def
  numberToInt64_def

lemma parse_12_3: "parseFloat False 123 (- 1) = Some (Float64 False 6924284427082138 (- 49))"
  by (simp add: float_eval)

lemma parse_paris:
  "parseFloat False 488566 (- 4) = Some (Float64 False 6875955173580918 (- 47))"
  "parseFloat False 23522 (- 4) = Some (Float64 False 5296683521750440 (- 51))"
  by (simp_all add: float_eval)

lemma parse_11_8: "parseFloat False 118 (- 1) = Some (Float64 False 6642809450371482 (- 49))"
  by (simp add: float_eval)


lemma fmt_12_3: "fmtFixed 1 (Float64 False 6924284427082138 (- 49)) = ''12.3''"
  by (simp add: fixed_eval)

lemma fmt_11_8: "fmtFixed 1 (Float64 False 6642809450371482 (- 49)) = ''11.8''"
  by (simp add: fixed_eval)

lemma format_1700000000: "formatMon1504 utc 1700000000 = ''Tue 22:13''"
  by (simp add: time_eval)

lemma format_1700003600: "formatMon1504 utc 1700003600 = ''Tue 23:13''"
  by (simp add: time_eval)

text \<open>At the bottom of \<open>int64\<close> the count of seconds has wrapped around.\<close>

lemma format_min_int64: "formatMon1504 utc (- (2 ^ 63)) = ''Sun 15:30''"
  by (simp add: time_eval)

lemma unmarshal_parisForecast:
  "unmarshalWeatherResponse (Parsed parisForecast) =
     Inr (zeroWeatherResponse\<lparr>Hourly :=
       \<lparr>Time = [1700000000], Temperature2m = [Float64 False 6924284427082138 (- 49)]\<rparr>\<rparr>)"
  by (simp add: unmarshalWeatherResponse_def parisForecast_def weatherResponseMember_def
      hourlyMember_def decode_eval numberToFloat_def fieldIs_weather parse_12_3
      zeroWeatherResponse_def)

lemma unmarshal_shortForecast:
  "unmarshalWeatherResponse (Parsed shortForecast) =
     Inr (zeroWeatherResponse\<lparr>Hourly :=
       \<lparr>Time = [1700000000, 1700003600],
        Temperature2m = [Float64 False 6924284427082138 (- 49)]\<rparr>\<rparr>)"
  by (simp add: unmarshalWeatherResponse_def shortForecast_def weatherResponseMember_def
      hourlyMember_def decode_eval numberToFloat_def fieldIs_weather parse_12_3
      zeroWeatherResponse_def)

lemma unmarshal_twoHourForecast:
  "unmarshalWeatherResponse (Parsed twoHourForecast) =
     Inr (zeroWeatherResponse\<lparr>Hourly :=
       \<lparr>Time = [1700000000, 1700003600],
        Temperature2m = [Float64 False 6924284427082138 (- 49),
                         Float64 False 6642809450371482 (- 49)]\<rparr>\<rparr>)"
  by (simp add: unmarshalWeatherResponse_def twoHourForecast_def weatherResponseMember_def
      hourlyMember_def decode_eval numberToFloat_def fieldIs_weather parse_12_3 parse_11_8
      zeroWeatherResponse_def)

lemma unmarshal_timelessForecast:
  "unmarshalWeatherResponse (Parsed (JObject timelessForecast)) =
     Inr (zeroWeatherResponse\<lparr>Hourly :=
       \<lparr>Time = [], Temperature2m = [Float64 False 6924284427082138 (- 49)]\<rparr>\<rparr>)"
  by (simp add: unmarshalWeatherResponse_def timelessForecast_def weatherResponseMember_def
      hourlyMember_def decode_eval numberToFloat_def fieldIs_weather parse_12_3
      zeroWeatherResponse_def)

lemma withoutTimestamps_timelessForecast: "withoutTimestamps timelessForecast"
  by (simp add: withoutTimestamps_def withoutTime_def timelessForecast_def fieldIs_weather)

lemma unmarshal_emptyForecast:
  "unmarshalWeatherResponse (Parsed emptyForecast) = Inr zeroWeatherResponse"
  by (simp add: unmarshalWeatherResponse_def emptyForecast_def weatherResponseMember_def
      hourlyMember_def decode_eval fieldIs_weather zeroWeatherResponse_def)

lemma unmarshal_rejectedForecast:
  "unmarshalWeatherResponse (Parsed rejectedForecast) = Inr zeroWeatherResponse"
  by (simp add: unmarshalWeatherResponse_def rejectedForecast_def weatherResponseMember_def
      decode_eval fieldIs_rejected)

lemma decode_parisGeo:
  "decodeGeoResponse (Parsed parisGeo) = Inr \<lparr>Results = [parisLatLong]\<rparr>"
  by (simp add: decodeGeoResponse_def parisGeo_def geoResponseMember_def latLongMember_def
      decode_eval numberToFloat_def fieldIs_geo parse_paris zeroGeoResponse_def
      zeroLatLong_def parisLatLong_def)


lemma decode_noMatchGeo:
  "decodeGeoResponse (Parsed noMatchGeo) = Inr \<lparr>Results = []\<rparr>"
  by (simp add: decodeGeoResponse_def noMatchGeo_def geoResponseMember_def decode_eval
      fieldIs_geo zeroGeoResponse_def)

lemma endpoints_differ: "weatherEndpoint c \<noteq> geoEndpoint city"
  by (simp add: weatherEndpoint_def geoEndpoint_def)

lemma exampleWorld_simps:
  "timeLocal (exampleWorld geo weather tmpl) = utc"
  "httpGet (exampleWorld geo weather tmpl) (geoEndpoint ''Paris'') = geo"
  "httpGet (exampleWorld geo weather tmpl) (weatherEndpoint c) = weather"
  "readFile (exampleWorld geo weather tmpl) ''views/index.html'' = Some ''<h1>Weather</h1>''"
  "parseFiles (exampleWorld geo weather tmpl) name = tmpl"
  "jsonErrorText (exampleWorld geo weather tmpl) e = ''json: cannot decode''"
  by (simp_all add: exampleWorld_def endpoints_differ)

lemma parisRequest_simps:
  "urlPath parisRequest = ''/weather''"
  "form parisRequest = Some [(''city'', [''Paris''])]"
  "formValue [(''city'', [''Paris''])] ''city'' = ''Paris''"
  by (simp_all add: parisRequest_def formValue_def)

lemma getLatLong_parisGeo:
  "getLatLong (exampleWorld (Inr (Content (Parsed parisGeo))) weather tmpl) ''Paris'' =
     Inr parisLatLong"
  by (simp add: getLatLong_def exampleWorld_simps decodeBody_def decode_parisGeo)

lemma getWeather_exampleWorld:
  "getWeather (exampleWorld geo (Inr (Content txt)) tmpl) c = Inr txt"
  "getWeather (exampleWorld geo (Inl e) tmpl) c =
     Inl (Errorf ''error making request to Weather API: '' (TransportError e))"
  by (simp_all add: getWeather_def exampleWorld_simps)

section \<open>The library's clock and the civil calendar\<close>

text \<open>
  Unless the sum of timestamp and zone offset lies within some eight billion seconds of
  the bottom of \<open>int64\<close>, the count of seconds does not wrap, and the label is the
  weekday (1 January 1970 was a Thursday) and the time of day of the local time.
\<close>

lemma absSeconds_no_wrap:
  assumes "- 9223372028715321600 \<le> t + loc t" and "t + loc t < 2 ^ 63"
  shows "absSeconds loc t = t + loc t + 9223372028715321600"
  using assms by (simp add: absSeconds_def unixToInternal_def internalToAbsolute_def)

lemma day_split:
  fixes a :: int
  shows "a mod 604800 div 86400 = a div 86400 mod 7"
proof -
  have "a mod (86400 * 7) = 86400 * (a div 86400 mod 7) + a mod 86400"
    by (rule zmod_zmult2_eq) simp
  then have "a mod 604800 div 86400 = (86400 * (a div 86400 mod 7) + a mod 86400) div 86400"
    by simp
  also have "\<dots> = a div 86400 mod 7"
    by simp
  finally show ?thesis .
qed

lemma absWeekday_civil:
  assumes "- 9223372028715321600 \<le> s" and "s < 2 ^ 63"
  shows "absWeekday (s + 9223372028715321600) = nat ((s div 86400 + 4) mod 7)"
proof -
  have "(s + 9223372028715321600 + 1 * 86400) mod 2 ^ 64 = s + 86400 * 106751991073095"
    using assms by simp
  moreover have "(s + 86400 * 106751991073095) div 86400 = s div 86400 + 106751991073095"
    by simp
  moreover have "(s div 86400 + 106751991073095) mod 7 = (s div 86400 + 4) mod 7"
  proof -
    have "(s div 86400 + 4 + 7 * 15250284439013) mod 7 = (s div 86400 + 4) mod 7"
      by (rule mod_mult_self2)
    then show ?thesis by (simp add: add.commute)
  qed
  ultimately show ?thesis
    by (simp add: absWeekday_def day_split)
qed

lemma absClock_civil:
  "absClock (s + 9223372028715321600) =
     (nat (s mod 86400 div 3600), nat (s mod 3600 div 60), nat (s mod 60))"
proof -
  have day: "(s + 9223372028715321600) mod 86400 = s mod 86400"
  proof -
    have "(s + 86400 * 106751991073094) mod 86400 = s mod 86400"
      by (rule mod_mult_self2)
    then show ?thesis by simp
  qed
  have "s mod 86400 - s mod 86400 div 3600 * 3600 = s mod 86400 mod 3600"
    by (simp add: minus_div_mult_eq_mod)
  moreover have "s mod 86400 mod 3600 = s mod 3600"
    by (simp add: mod_mod_cancel)
  moreover have "s mod 3600 - s mod 3600 div 60 * 60 = s mod 3600 mod 60"
    by (simp add: minus_div_mult_eq_mod)
  moreover have "s mod 3600 mod 60 = s mod 60"
    by (simp add: mod_mod_cancel)
  ultimately show ?thesis
    by (simp add: absClock_def Let_def day)
qed


lemma formatMon1504_civil:
  assumes "- 9223372028715321600 \<le> t + loc t" and "t + loc t < 2 ^ 63"
  shows "formatMon1504 loc t =
           weekdayNames ! nat (((t + loc t) div 86400 + 4) mod 7) @ '' ''
           @ padDigits 2 (nat ((t + loc t) mod 86400 div 3600)) @ '':''
           @ padDigits 2 (nat ((t + loc t) mod 3600 div 60))"
  using assms
  by (simp add: formatMon1504_def absSeconds_no_wrap absWeekday_civil absClock_civil)

section \<open>The loop of the formatter\<close>

lemma rangeTime_Return:
  "i + length ts \<le> length temps \<Longrightarrow>
   rangeTime loc temps i ts forecasts =
     Return (forecasts @ map (\<lambda>(t, x). forecastAt loc t x) (zip ts (drop i temps)))"
proof (induction ts arbitrary: i forecasts)
  case Nil
  show ?case by simp
next
  case (Cons t ts)
  from Cons.prems have less: "i < length temps" and rest: "Suc i + length ts \<le> length temps"
    by simp_all
  from less have "drop i temps = temps ! i # drop (Suc i) temps"
    by (simp add: Cons_nth_drop_Suc)
  with less Cons.IH [OF rest] show ?case
    by simp
qed

lemma rangeTime_Panic:
  "i \<le> length temps \<Longrightarrow> length temps < i + length ts \<Longrightarrow>
   rangeTime loc temps i ts forecasts = Panic (IndexOutOfRange (length temps) (length temps))"
proof (induction ts arbitrary: i forecasts)
  case Nil
  then show ?case by simp
next
  case (Cons t ts)
  show ?case
  proof (cases "i < length temps")
    case True
    with Cons.prems have "Suc i \<le> length temps" "length temps < Suc i + length ts"
      by simp_all
    from Cons.IH [OF this] True show ?thesis
      by simp
  next
    case False
    with Cons.prems have "i = length temps"
      by simp
    then show ?thesis
      by simp
  qed
qed

lemma extractWeatherData_short:
  assumes "unmarshalWeatherResponse rawWeather = Inr wr"
    and "length (Temperature2m (Hourly wr)) < length (Time (Hourly wr))"
  shows "extractWeatherData loc city rawWeather =
           Panic (IndexOutOfRange (length (Temperature2m (Hourly wr)))
                    (length (Temperature2m (Hourly wr))))"
  using assms by (simp add: extractWeatherData_def rangeTime_Panic)

lemma extractWeatherData_enough:
  assumes "unmarshalWeatherResponse rawWeather = Inr wr"
    and "length (Time (Hourly wr)) \<le> length (Temperature2m (Hourly wr))"
  shows "extractWeatherData loc city rawWeather =
           Return (Inr \<lparr>City = city,
             Forecasts = map (\<lambda>(t, x). forecastAt loc t x)
               (zip (Time (Hourly wr)) (Temperature2m (Hourly wr)))\<rparr>)"
  using assms by (simp add: extractWeatherData_def rangeTime_Return)

section \<open>Members that leave the timestamps alone\<close>

lemma hourlyMember_other:
  "\<not> fieldIs ''time'' name \<Longrightarrow> hourlyMember st name v = Inr st' \<Longrightarrow>
   Time (fst st') = Time (fst st)"
  by (cases st) (auto simp: hourlyMember_def split: if_splits sum.splits)

lemma decodeMembers_hourly_Time:
  "list_all (\<lambda>(name, x). \<not> fieldIs ''time'' name) hs \<Longrightarrow>
   decodeMembers hourlyMember st hs = Inr st' \<Longrightarrow> Time (fst st') = Time (fst st)"
proof (induction hs arbitrary: st)
  case Nil
  then show ?case by simp
next
  case (Cons m hs)
  obtain name v where m: "m = (name, v)"
    by (cases m)
  from Cons.prems m obtain st1 where step: "hourlyMember st name v = Inr st1"
    and rest: "decodeMembers hourlyMember st1 hs = Inr st'"
    by (auto split: sum.splits)
  from Cons.prems m have "\<not> fieldIs ''time'' name"
    and "list_all (\<lambda>(name, x). \<not> fieldIs ''time'' name) hs"
    by simp_all
  with step rest Cons.IH [of st1] show ?case
    by (simp add: hourlyMember_other)
qed

lemma weatherResponseMember_Time:
  assumes "fieldIs ''hourly'' name \<longrightarrow> withoutTime v"
    and "weatherResponseMember st name v = Inr st'"
  shows "Time (Hourly (fst st')) = Time (Hourly (fst st))"
proof (cases "fieldIs ''latitude'' name \<or> fieldIs ''longitude'' name \<or> fieldIs ''timezone'' name
    \<or> \<not> fieldIs ''hourly'' name")
  case True
  with assms(2) show ?thesis
    by (cases st) (auto simp: weatherResponseMember_def split: if_splits sum.splits)
next
  case False
  with assms(1) have wt: "withoutTime v"
    by simp
  obtain r rest where st: "st = (r, rest)"
    by (cases st)
  from False assms(2) st obtain h rest'
    where h: "decodeStruct hourlyMember ''hourly'' v (Hourly r, rest) = Inr (h, rest')"
      and st': "st' = (r\<lparr>Hourly := h\<rparr>, rest')"
    by (auto simp: weatherResponseMember_def split: if_splits sum.splits)
  from wt h have "Time h = Time (Hourly r)"
    by (cases v) (auto simp: withoutTime_def decodeStruct_def dest: decodeMembers_hourly_Time)
  with st st' show ?thesis
    by simp
qed

lemma decodeMembers_weather_Time:
  "withoutTimestamps ms \<Longrightarrow> decodeMembers weatherResponseMember st ms = Inr st' \<Longrightarrow>
   Time (Hourly (fst st')) = Time (Hourly (fst st))"
proof (induction ms arbitrary: st)
  case Nil
  then show ?case by simp
next
  case (Cons m ms)
  obtain name v where m: "m = (name, v)"
    by (cases m)
  from Cons.prems m obtain st1 where step: "weatherResponseMember st name v = Inr st1"
    and rest: "decodeMembers weatherResponseMember st1 ms = Inr st'"
    by (auto split: sum.splits)
  from Cons.prems m have here: "fieldIs ''hourly'' name \<longrightarrow> withoutTime v"
    and there: "withoutTimestamps ms"
    by (simp_all add: withoutTimestamps_def)
  from weatherResponseMember_Time [OF here step] Cons.IH [OF there rest] show ?case
    by simp
qed

section \<open>The formatter\<close>

text \<open>
  C1. When the temperature sequence is shorter than the timestamp sequence the formatter
  should fail with an error instead of indexing past the end of the temperatures. It does
  not: for two timestamps and one temperature the second iteration indexes
  \<open>Temperature2m[1]\<close> and the function panics with an index out of range; it returns no
  error.
\<close>

theorem extractWeatherData_short_panics:
  "extractWeatherData utc ''Paris'' (Parsed shortForecast) = Panic (IndexOutOfRange 1 1)"
  using extractWeatherData_short [OF unmarshal_shortForecast, of utc "''Paris''"]
  by (simp add: zeroWeatherResponse_def)

text \<open>
  C8. When the decoded timestamp and temperature sequences have the same length \<open>n\<close>, the
  formatter returns a display of exactly \<open>n\<close> forecasts for the given city, and the
  forecast at index \<open>i\<close> is made of the timestamp at index \<open>i\<close>, formatted with the
  layout \<open>Mon 15:04\<close> in the local zone, and of the temperature at index \<open>i\<close>, formatted
  with \<open>%.1f\<close> and followed by the suffix of the format string.
\<close>

theorem extractWeatherData_equal_lengths:
  assumes "unmarshalWeatherResponse rawWeather = Inr wr"
    and "length (Time (Hourly wr)) = length (Temperature2m (Hourly wr))"
  shows "\<exists>fs. extractWeatherData loc city rawWeather =
                Return (Inr \<lparr>City = city, Forecasts = fs\<rparr>)
           \<and> length fs = length (Time (Hourly wr))
           \<and> (\<forall>i < length (Time (Hourly wr)).
                 fs ! i =
                   \<lparr>Date = formatMon1504 loc (Time (Hourly wr) ! i),
                    Temperature =
                      fmtFixed 1 (Temperature2m (Hourly wr) ! i) @ temperatureSuffix\<rparr>)"
proof -
  from assms have "extractWeatherData loc city rawWeather =
      Return (Inr \<lparr>City = city,
        Forecasts = map (\<lambda>(t, x). forecastAt loc t x)
          (zip (Time (Hourly wr)) (Temperature2m (Hourly wr)))\<rparr>)"
    by (simp add: extractWeatherData_enough)
  with assms(2) show ?thesis
    by (simp add: forecastAt_def)
qed

theorem extractWeatherData_equal_lengths_witness:
  "unmarshalWeatherResponse (Parsed twoHourForecast) =
     Inr (zeroWeatherResponse\<lparr>Hourly :=
       \<lparr>Time = [1700000000, 1700003600],
        Temperature2m = [Float64 False 6924284427082138 (- 49),
                         Float64 False 6642809450371482 (- 49)]\<rparr>\<rparr>)
   \<and> extractWeatherData utc ''Paris'' (Parsed twoHourForecast) =
       Return (Inr \<lparr>City = ''Paris'', Forecasts =
         [\<lparr>Date = ''Tue 22:13'',
           Temperature = ''12.3'' @ [CHR 0xC3, CHR 0x82, CHR 0xC2, CHR 0xB0, CHR ''C'']\<rparr>,
          \<lparr>Date = ''Tue 23:13'',
           Temperature = ''11.8'' @ [CHR 0xC3, CHR 0x82, CHR 0xC2, CHR 0xB0, CHR ''C'']\<rparr>]\<rparr>)"
proof -
  let ?wr = "zeroWeatherResponse\<lparr>Hourly :=
       \<lparr>Time = [1700000000, 1700003600],
        Temperature2m = [Float64 False 6924284427082138 (- 49),
                         Float64 False 6642809450371482 (- 49)]\<rparr>\<rparr>"
  have lens: "length (Time (Hourly ?wr)) = length (Temperature2m (Hourly ?wr))"
    by (simp add: zeroWeatherResponse_def)
  from extractWeatherData_equal_lengths [OF unmarshal_twoHourForecast lens, of utc "''Paris''"]
  obtain fs where run: "extractWeatherData utc ''Paris'' (Parsed twoHourForecast) =
        Return (Inr \<lparr>City = ''Paris'', Forecasts = fs\<rparr>)"
    and len: "length fs = 2"
    and nth: "\<forall>i < 2. fs ! i =
        \<lparr>Date = formatMon1504 utc ([1700000000, 1700003600] ! i),
         Temperature = fmtFixed 1 ([Float64 False 6924284427082138 (- 49),
           Float64 False 6642809450371482 (- 49)] ! i) @ temperatureSuffix\<rparr>"
    by (auto simp: zeroWeatherResponse_def)
  from nth have first: "fs ! 0 =
      \<lparr>Date = ''Tue 22:13'',
       Temperature = ''12.3'' @ [CHR 0xC3, CHR 0x82, CHR 0xC2, CHR 0xB0, CHR ''C'']\<rparr>"
    by (simp add: format_1700000000 fmt_12_3 [unfolded One_nat_def] temperatureSuffix_def)
  from nth have "fs ! 1 =
      \<lparr>Date = formatMon1504 utc ([1700000000, 1700003600] ! 1),
       Temperature = fmtFixed 1 ([Float64 False 6924284427082138 (- 49),
         Float64 False 6642809450371482 (- 49)] ! 1) @ temperatureSuffix\<rparr>"
    by (simp del: One_nat_def)
  then have second: "fs ! 1 =
      \<lparr>Date = ''Tue 23:13'',
       Temperature = ''11.8'' @ [CHR 0xC3, CHR 0x82, CHR 0xC2, CHR 0xB0, CHR ''C'']\<rparr>"
    by (simp add: format_1700003600 fmt_11_8 [unfolded One_nat_def] temperatureSuffix_def)
  from len have "fs = [fs ! 0, fs ! 1]"
    by (cases fs; cases "tl fs") auto
  with first second have "fs =
      [\<lparr>Date = ''Tue 22:13'',
        Temperature = ''12.3'' @ [CHR 0xC3, CHR 0x82, CHR 0xC2, CHR 0xB0, CHR ''C'']\<rparr>,
       \<lparr>Date = ''Tue 23:13'',
        Temperature = ''11.8'' @ [CHR 0xC3, CHR 0x82, CHR 0xC2, CHR 0xB0, CHR ''C'']\<rparr>]"
    by simp
  with run unmarshal_twoHourForecast show ?thesis
    by simp
qed

text \<open>
  C9. When the decoded timestamp sequence is empty the formatter returns, without error,
  a display with no forecasts for the given city.
\<close>

theorem extractWeatherData_empty:
  assumes "unmarshalWeatherResponse rawWeather = Inr wr"
    and "Time (Hourly wr) = []"
  shows "extractWeatherData loc city rawWeather = Return (Inr \<lparr>City = city, Forecasts = []\<rparr>)"
  using assms by (simp add: extractWeatherData_def)

theorem extractWeatherData_empty_witness:
  "unmarshalWeatherResponse (Parsed emptyForecast) = Inr zeroWeatherResponse
   \<and> Time (Hourly zeroWeatherResponse) = []
   \<and> extractWeatherData utc ''Paris'' (Parsed emptyForecast) =
       Return (Inr \<lparr>City = ''Paris'', Forecasts = []\<rparr>)"
  using extractWeatherData_empty [OF unmarshal_emptyForecast, of utc "''Paris''"]
    unmarshal_emptyForecast
  by (simp add: zeroWeatherResponse_def)

text \<open>
  C5. For the forecast of the specification (timestamp 1700000000, temperature 12.3) the
  date label is the weekday and the time of day of the timestamp in the local zone (here
  UTC) and the temperature label starts with the temperature to one decimal. What
  follows is not the degree sign and \<open>C\<close> (bytes C2 B0 43) but the five bytes
  C3 82 C2 B0 43 of the format string, so the label is not \<open>12.3\<close> followed by the
  degrees-Celsius suffix.
\<close>

theorem extractWeatherData_paris_labels:
  "extractWeatherData utc ''Paris'' (Parsed parisForecast) =
     Return (Inr \<lparr>City = ''Paris'', Forecasts =
       [\<lparr>Date = ''Tue 22:13'',
         Temperature = ''12.3'' @ [CHR 0xC3, CHR 0x82, CHR 0xC2, CHR 0xB0, CHR ''C'']\<rparr>]\<rparr>)
   \<and> ''12.3'' @ [CHR 0xC3, CHR 0x82, CHR 0xC2, CHR 0xB0, CHR ''C'']
       \<noteq> ''12.3'' @ [CHR 0xC2, CHR 0xB0, CHR ''C'']"
  using extractWeatherData_enough [OF unmarshal_parisForecast, of utc "''Paris''"]
  by (simp add: zeroWeatherResponse_def forecastAt_def format_1700000000
      fmt_12_3 [unfolded One_nat_def] temperatureSuffix_def)

text \<open>
  C3. A payload that is valid JSON and lacks the expected fields is not refused. Members
  that are absent leave their fields at the zero value, so an object that brings no
  timestamps (no \<open>hourly\<close> member, or an \<open>hourly\<close> object without \<open>time\<close>), and whose
  members have the JSON types of their fields, makes the formatter return a display
  with no forecasts for the given city.
\<close>

theorem extractWeatherData_without_timestamps:
  assumes "withoutTimestamps ms"
    and "unmarshalWeatherResponse (Parsed (JObject ms)) = Inr wr"
  shows "extractWeatherData loc city (Parsed (JObject ms)) =
           Return (Inr \<lparr>City = city, Forecasts = []\<rparr>)"
proof -
  from assms(2) obtain rest
    where "decodeMembers weatherResponseMember (zeroWeatherResponse, [], []) ms = Inr (wr, rest)"
    by (auto simp: unmarshalWeatherResponse_def decodeStruct_def split: sum.splits)
  from decodeMembers_weather_Time [OF assms(1) this] have "Time (Hourly wr) = []"
    by (simp add: zeroWeatherResponse_def)
  with assms(2) show ?thesis
    by (simp add: extractWeatherData_def)
qed

theorem extractWeatherData_without_timestamps_witness:
  "withoutTimestamps timelessForecast
   \<and> unmarshalWeatherResponse (Parsed (JObject timelessForecast)) =
       Inr (zeroWeatherResponse\<lparr>Hourly :=
         \<lparr>Time = [], Temperature2m = [Float64 False 6924284427082138 (- 49)]\<rparr>\<rparr>)
   \<and> extractWeatherData utc ''Paris'' (Parsed (JObject timelessForecast)) =
       Return (Inr \<lparr>City = ''Paris'', Forecasts = []\<rparr>)"
  using extractWeatherData_without_timestamps
      [OF withoutTimestamps_timelessForecast unmarshal_timelessForecast, of utc "''Paris''"]
    withoutTimestamps_timelessForecast unmarshal_timelessForecast
  by simp

text \<open>
  The claim as first stated fails on the document \<open>{"error":true,"reason":"..."}\<close>: it
  has none of the expected fields, and the formatter returns a display, not an error.
\<close>

theorem extractWeatherData_rejectedForecast:
  "extractWeatherData utc ''Paris'' (Parsed rejectedForecast) =
     Return (Inr \<lparr>City = ''Paris'', Forecasts = []\<rparr>)"
  by (simp add: extractWeatherData_def unmarshal_rejectedForecast zeroWeatherResponse_def)

section \<open>The geocoder client\<close>



text \<open>
  C7. When the geocoder's answer decodes and its result list is empty, \<open>getLatLong\<close>
  returns no coordinate: it fails with the error \<open>no results found\<close>.
\<close>

theorem getLatLong_no_results:
  assumes "httpGet w (geoEndpoint city) = Inr (Content txt)"
    and "decodeGeoResponse txt = Inr response"
    and "Results response = []"
  shows "getLatLong w city = Inl (ErrorsNew ''no results found'')"
  using assms by (simp add: getLatLong_def decodeBody_def)

theorem getLatLong_no_results_witness:
  "httpGet (exampleWorld (Inr (Content (Parsed noMatchGeo))) (Inl []) None)
       (geoEndpoint ''Paris'') = Inr (Content (Parsed noMatchGeo))
   \<and> decodeGeoResponse (Parsed noMatchGeo) = Inr \<lparr>Results = []\<rparr>
   \<and> getLatLong (exampleWorld (Inr (Content (Parsed noMatchGeo))) (Inl []) None) ''Paris'' =
       Inl (ErrorsNew ''no results found'')"
  using getLatLong_no_results
      [of "exampleWorld (Inr (Content (Parsed noMatchGeo))) (Inl []) None" "''Paris''"
          "Parsed noMatchGeo" "\<lparr>Results = []\<rparr>"]
    decode_noMatchGeo
  by (simp add: exampleWorld_simps)

section \<open>The HTTP front end\<close>

text \<open>
  C2. A request for a path other than \<open>/\<close> and \<open>/weather\<close> should be answered with
  not found. It is not: the pattern \<open>/\<close> takes every path that \<open>/weather\<close> does not,
  and \<open>home\<close> does not look at the path, so \<open>/bogus\<close> is answered with the landing page
  and status 200.
\<close>

theorem serveHTTP_bogus:
  "serveHTTP (exampleWorld (Inl []) (Inl []) None) bogusRequest =
     Return \<lparr>statusCode = 200, contentType = Some ''text/html'', written = ''<h1>Weather</h1>''\<rparr>"
  by (simp add: serveHTTP_def bogusRequest_def routes_def patternMatches_def home_def
      exampleWorld_simps)

text \<open>
  C4. On \<open>/weather\<close>, a failure of the geocoder client is answered with status 500 and
  the fixed text \<open>internal server error\<close>; a failure of the forecast client and a
  failure of the formatter are each answered with status 500 and the text of the error.
\<close>

theorem handler_failures:
  assumes "urlPath r = ''/weather''"
    and "form r = Some f"
    and "city = formValue f ''city''"
  shows "(getLatLong w city = Inl e1 \<longrightarrow>
            handler w r = Return (httpError ''internal server error'' 500))
       \<and> (getLatLong w city = Inr c \<longrightarrow> getWeather w c = Inl e2 \<longrightarrow>
            handler w r = Return (httpError (errorString w e2) 500))
       \<and> (getLatLong w city = Inr c \<longrightarrow> getWeather w c = Inr weather \<longrightarrow>
            extractWeatherData (timeLocal w) city weather = Return (Inl e3) \<longrightarrow>
            handler w r = Return (httpError (errorString w e3) 500))"
  using assms by (simp add: handler_def)

theorem handler_failures_witness:
  "handler (exampleWorld (Inl ''no such host'') (Inl []) None) parisRequest =
     Return (httpError ''internal server error'' 500)
   \<and> handler (exampleWorld (Inr (Content (Parsed parisGeo))) (Inr (Unreadable ''unexpected EOF''))
        None) parisRequest =
     Return (httpError ''error reading response body unexpected EOF'' 500)
   \<and> handler (exampleWorld (Inr (Content (Parsed parisGeo))) (Inr (Content Malformed)) None)
        parisRequest =
     Return (httpError ''error decoding weather response: json: cannot decode'' 500)"
proof (intro conjI)
  let ?w1 = "exampleWorld (Inl ''no such host'') (Inl []) None"
  have "getLatLong ?w1 ''Paris'' =
      Inl (Errorf ''error making request to Geo API: '' (TransportError ''no such host''))"
    by (simp add: getLatLong_def exampleWorld_simps)
  with handler_failures [of parisRequest "[(''city'', [''Paris''])]" "''Paris''" ?w1]
  show "handler ?w1 parisRequest = Return (httpError ''internal server error'' 500)"
    by (simp add: parisRequest_simps)
next
  let ?w2 = "exampleWorld (Inr (Content (Parsed parisGeo))) (Inr (Unreadable ''unexpected EOF'')) None"
  have "getWeather ?w2 parisLatLong =
      Inl (Errorf ''error reading response body '' (TransportError ''unexpected EOF''))"
    by (simp add: getWeather_def exampleWorld_simps)
  with handler_failures [of parisRequest "[(''city'', [''Paris''])]" "''Paris''" ?w2 _ parisLatLong]
    getLatLong_parisGeo
  show "handler ?w2 parisRequest =
      Return (httpError ''error reading response body unexpected EOF'' 500)"
    by (simp add: parisRequest_simps)
next
  let ?w3 = "exampleWorld (Inr (Content (Parsed parisGeo))) (Inr (Content Malformed)) None"
  have "extractWeatherData (timeLocal ?w3) ''Paris'' Malformed =
      Return (Inl (Errorf ''error decoding weather response: '' (JSONError SyntaxError)))"
    by (simp add: extractWeatherData_def unmarshalWeatherResponse_def)
  with handler_failures [of parisRequest "[(''city'', [''Paris''])]" "''Paris''" ?w3 _ parisLatLong _ Malformed]
    getLatLong_parisGeo getWeather_exampleWorld(1)
  show "handler ?w3 parisRequest =
      Return (httpError ''error decoding weather response: json: cannot decode'' 500)"
    by (simp add: parisRequest_simps exampleWorld_simps)
qed

text \<open>
  The claim as first stated fails when the forecast client cannot reach the weather
  service: the answer carries the text of the client's error, not a fixed message.
\<close>

theorem handler_forecast_client_failure:
  "handler (exampleWorld (Inr (Content (Parsed parisGeo))) (Inl ''connection refused'') None)
       parisRequest =
     Return (httpError ''error making request to Weather API: connection refused'' 500)"
  by (simp add: handler_def parisRequest_simps getLatLong_parisGeo getWeather_exampleWorld)

text \<open>
  C10. When the pipeline succeeds and the results template cannot be parsed, the handler
  does not answer with an error status: it goes on with the nil template, and executing
  it panics with a nil pointer dereference.
\<close>

theorem handler_nil_template:
  assumes "urlPath r = ''/weather''"
    and "form r = Some f"
    and "getLatLong w (formValue f ''city'') = Inr c"
    and "getWeather w c = Inr weather"
    and "extractWeatherData (timeLocal w) (formValue f ''city'') weather = Return (Inr d)"
    and "parseFiles w ''views/weather.html'' = None"
  shows "handler w r = Panic NilPointerDereference"
  using assms by (simp add: handler_def)

theorem handler_nil_template_witness:
  "parseFiles (exampleWorld (Inr (Content (Parsed parisGeo)))
       (Inr (Content (Parsed emptyForecast))) None) ''views/weather.html'' = None
   \<and> handler (exampleWorld (Inr (Content (Parsed parisGeo)))
       (Inr (Content (Parsed emptyForecast))) None) parisRequest = Panic NilPointerDereference"
proof -
  let ?w = "exampleWorld (Inr (Content (Parsed parisGeo))) (Inr (Content (Parsed emptyForecast))) None"
  have "extractWeatherData (timeLocal ?w) ''Paris'' (Parsed emptyForecast) =
      Return (Inr \<lparr>City = ''Paris'', Forecasts = []\<rparr>)"
    by (simp add: extractWeatherData_def unmarshal_emptyForecast zeroWeatherResponse_def)
  with handler_nil_template [of parisRequest "[(''city'', [''Paris''])]" ?w parisLatLong
      "Parsed emptyForecast" "\<lparr>City = ''Paris'', Forecasts = []\<rparr>"]
    getLatLong_parisGeo getWeather_exampleWorld(1)
  show ?thesis
    by (simp add: parisRequest_simps exampleWorld_simps)
qed

end
